theory Spec2Isabelle
  imports Complex_Main
begin

section \<open>JavaScript values, errors and effects\<close>

text \<open>
  The snippets consume JSON fetched from a placeholder endpoint. A parsed JSON document is
  a \<open>jsval\<close>; \<open>Undefined\<close> is added because reading an absent property yields it. An
  object is the list of its own properties. JSON numbers are finite, so they are
  rationals; no snippet computes with them.
\<close>

datatype jsval =
    Undefined
  | Null
  | Bool bool
  | Num rat
  | Str string
  | Arr "jsval list"
  | Obj "(string \<times> jsval) list"

text \<open>
  \<open>FetchError\<close> carries the reason a \<open>fetch\<close> promise rejected with (a number chosen by
  the network), \<open>SyntaxError\<close> is what \<open>res.json()\<close> rejects with on a malformed body,
  \<open>TypeError\<close> is what a property read of \<open>null\<close>/\<open>undefined\<close> or a call of a
  non-function throws.
\<close>

datatype js_error = FetchError nat | SyntaxError | TypeError

text \<open>
  What a computation does that a caller can observe besides its result: the requests it
  issues and the properties it reads from data.
\<close>

datatype event =
    Fetch string jsval
  | Read jsval string

text \<open>
  A computation yields the events it performed, in order, and either the error it threw
  (for an \<open>async\<close> function: the reason its promise rejected with) or its value.
\<close>

type_synonym 'a js = "event list \<times> (js_error + 'a)"

definition ret :: "'a \<Rightarrow> 'a js" where
  "ret x = ([], Inr x)"

definition throw :: "js_error \<Rightarrow> 'a js" where
  "throw e = ([], Inl e)"

text \<open>Sequencing (\<open>await\<close>, or one statement after another): an error ends the computation.\<close>

definition andThen :: "'a js \<Rightarrow> ('a \<Rightarrow> 'b js) \<Rightarrow> 'b js" where
  "andThen m f =
     (case m of
        (t, Inl e) \<Rightarrow> (t, Inl e)
      | (t, Inr x) \<Rightarrow> (case f x of (t', r) \<Rightarrow> (t @ t', r)))"

definition trace :: "'a js \<Rightarrow> event list" where
  "trace m = fst m"

definition outcome :: "'a js \<Rightarrow> js_error + 'a" where
  "outcome m = snd m"

fun is_fetch :: "event \<Rightarrow> bool" where
  "is_fetch (Fetch u i) = True"
| "is_fetch (Read v k) = False"

definition fetches :: "event list \<Rightarrow> event list" where
  "fetches t = filter is_fetch t"



subsection \<open>Property reads and array methods\<close>

text \<open>
  \<open>v.k\<close> for the names that occur in the snippets: the fields they read (\<open>id\<close>,
  \<open>title\<close>, \<open>body\<close>, \<open>name\<close>, \<open>email\<close>) and the keys of the objects they build
  (\<open>props\<close>, \<open>revalidate\<close>, \<open>next\<close>, \<open>cache\<close>). None of them is defined on the
  prototypes of objects, arrays, strings, numbers or booleans, so only an object's own
  property can give a value other than \<open>undefined\<close>. Reading a property of \<open>null\<close> or
  \<open>undefined\<close> throws.
\<close>

definition own_property :: "(string \<times> jsval) list \<Rightarrow> string \<Rightarrow> jsval" where
  "own_property kvs k = (case map_of kvs k of None \<Rightarrow> Undefined | Some v \<Rightarrow> v)"

fun field_value :: "jsval \<Rightarrow> string \<Rightarrow> jsval" where
  "field_value (Obj kvs) k = own_property kvs k"
| "field_value v k = Undefined"

fun nullish :: "jsval \<Rightarrow> bool" where
  "nullish Undefined = True"
| "nullish Null = True"
| "nullish v = False"

definition get_field :: "jsval \<Rightarrow> string \<Rightarrow> jsval js" where
  "get_field v k = (if nullish v then throw TypeError else ([Read v k], Inr (field_value v k)))"

text \<open>
  \<open>!v\<close> is true exactly for the falsy values: \<open>undefined\<close>, \<open>null\<close>, \<open>false\<close>, \<open>0\<close> and
  the empty string.
\<close>

fun truthy :: "jsval \<Rightarrow> bool" where
  "truthy Undefined = False"
| "truthy Null = False"
| "truthy (Bool b) = b"
| "truthy (Num n) = (n \<noteq> 0)"
| "truthy (Str s) = (s \<noteq> [])"
| "truthy (Arr xs) = True"
| "truthy (Obj kvs) = True"

text \<open>
  \<open>v.slice(s, e)\<close> with non-negative integer bounds. Arrays and strings have the method;
  on \<open>null\<close>/\<open>undefined\<close> the property read throws, on any other JSON value \<open>v.slice\<close> is
  not a function (an own property \<open>slice\<close> of a parsed object is never one).
\<close>

fun js_slice :: "jsval \<Rightarrow> nat \<Rightarrow> nat \<Rightarrow> jsval js" where
  "js_slice (Arr xs) s e = ret (Arr (take (e - s) (drop s xs)))"
| "js_slice (Str cs) s e = ret (Str (take (e - s) (drop s cs)))"
| "js_slice v s e = throw TypeError"

text \<open>
  \<open>Array.prototype.map\<close> calls the callback on the elements in index order and collects
  the results; a callback that throws ends the loop.
\<close>

fun map_js :: "('a \<Rightarrow> 'b js) \<Rightarrow> 'a list \<Rightarrow> 'b list js" where
  "map_js f [] = ret []"
| "map_js f (x # xs) = andThen (f x) (\<lambda>y. andThen (map_js f xs) (\<lambda>ys. ret (y # ys)))"

text \<open>\<open>v.map(f)\<close>: only arrays have the method among JSON values.\<close>

fun js_map :: "jsval \<Rightarrow> (jsval \<Rightarrow> 'b js) \<Rightarrow> 'b list js" where
  "js_map (Arr xs) f = map_js f xs"
| "js_map v f = throw TypeError"

subsection \<open>The network\<close>

text \<open>
  A response has a status code and a body that either parses as JSON or does not. The
  network decides, for a URL and the options passed to \<open>fetch\<close>, whether the promise
  rejects or which response it resolves to.
\<close>

datatype resp_body = Malformed | Json jsval

datatype response = Response nat resp_body

datatype fetch_result = Rejected js_error | Resolved response

type_synonym network = "string \<Rightarrow> jsval \<Rightarrow> fetch_result"

text \<open>\<open>fetch(url, init)\<close>; \<open>init\<close> is \<open>Undefined\<close> when the call has one argument.\<close>

definition fetch :: "network \<Rightarrow> string \<Rightarrow> jsval \<Rightarrow> response js" where
  "fetch net u init =
     ([Fetch u init], case net u init of Rejected e \<Rightarrow> Inl e | Resolved r \<Rightarrow> Inr r)"

text \<open>\<open>res.json()\<close>: the status is not looked at.\<close>

fun json :: "response \<Rightarrow> jsval js" where
  "json (Response st Malformed) = throw SyntaxError"
| "json (Response st (Json v)) = ret v"

subsection \<open>JSX\<close>

text \<open>
  The value of a JSX expression: an element has a tag, the value given as \<open>key\<close> (if
  any) and its children; a child is literal text, the value of an expression in braces,
  an array of elements, or an element.
\<close>

datatype jsx =
    Text string
  | Expr jsval
  | Elems "jsx list"
  | Element string "jsval option" "jsx list"

section \<open>Pages Router\<close>

subsection \<open>pages/blogs.js: static site generation\<close>

definition getStaticProps_blogs :: "network \<Rightarrow> jsval js" where
  "getStaticProps_blogs net =
     andThen (fetch net ''https://api.example.com/blogs'' Undefined) (\<lambda>res.
     andThen (json res) (\<lambda>blogs.
     ret (Obj [(''props'', Obj [(''blogs'', blogs)])])))"

text \<open>The argument is the \<open>blogs\<close> property destructured from the props.\<close>

definition Blogs :: "jsval \<Rightarrow> jsx js" where
  "Blogs blogs =
     andThen (js_map blogs (\<lambda>blog.
        andThen (get_field blog ''id'') (\<lambda>k.
        andThen (get_field blog ''title'') (\<lambda>t.
        ret (Element ''div'' (Some k) [Expr t]))))) (\<lambda>items.
     ret (Element ''div'' None [Element ''h1'' None [Text ''Blogs''], Elems items]))"

subsection \<open>pages/news.js: server-side rendering\<close>

definition getServerSideProps :: "network \<Rightarrow> jsval js" where
  "getServerSideProps net =
     andThen (fetch net ''https://api.example.com/news'' Undefined) (\<lambda>res.
     andThen (json res) (\<lambda>news.
     ret (Obj [(''props'', Obj [(''news'', news)])])))"

definition News :: "jsval \<Rightarrow> jsx js" where
  "News news =
     andThen (js_map news (\<lambda>item.
        andThen (get_field item ''id'') (\<lambda>k.
        andThen (get_field item ''title'') (\<lambda>t.
        ret (Element ''div'' (Some k) [Expr t]))))) (\<lambda>items.
     ret (Element ''div'' None [Element ''h1'' None [Text ''News''], Elems items]))"

subsection \<open>pages/posts.js: incremental static regeneration\<close>

definition getStaticProps_posts :: "network \<Rightarrow> jsval js" where
  "getStaticProps_posts net =
     andThen (fetch net ''https://api.example.com/posts'' Undefined) (\<lambda>res.
     andThen (json res) (\<lambda>posts.
     ret (Obj [(''props'', Obj [(''posts'', posts)]), (''revalidate'', Num 10)])))"

section \<open>App Router\<close>

subsection \<open>app/blogs/page: static site generation\<close>

definition getBlogs :: "network \<Rightarrow> jsval js" where
  "getBlogs net =
     andThen (fetch net ''https://api.example.com/blogs'' Undefined) (\<lambda>res. json res)"

definition BlogsPage :: "network \<Rightarrow> jsx js" where
  "BlogsPage net =
     andThen (getBlogs net) (\<lambda>blogs.
     andThen (js_slice blogs 0 5) (\<lambda>firsts.
     andThen (js_map firsts (\<lambda>post.
        andThen (get_field post ''id'') (\<lambda>k.
        andThen (get_field post ''title'') (\<lambda>t.
        ret (Element ''p'' (Some k) [Expr t]))))) (\<lambda>items.
     ret (Element ''div'' None [Element ''h1'' None [Text ''SSG Blogs''], Elems items]))))"

subsection \<open>app/posts/page: incremental static regeneration\<close>

definition getPosts :: "network \<Rightarrow> jsval js" where
  "getPosts net =
     andThen (fetch net ''https://api.example.com/posts''
                (Obj [(''next'', Obj [(''revalidate'', Num 10)])])) (\<lambda>res. json res)"

definition PostsPage :: "network \<Rightarrow> jsx js" where
  "PostsPage net =
     andThen (getPosts net) (\<lambda>posts.
     andThen (js_map posts (\<lambda>post.
        andThen (get_field post ''id'') (\<lambda>k.
        andThen (get_field post ''title'') (\<lambda>t.
        ret (Element ''p'' (Some k) [Expr t]))))) (\<lambda>items.
     ret (Element ''div'' None [Element ''h1'' None [Text ''ISR Posts''], Elems items])))"

subsection \<open>app/news/page: server-side rendering\<close>

definition getNews :: "network \<Rightarrow> jsval js" where
  "getNews net =
     andThen (fetch net ''https://api.example.com/news''
                (Obj [(''cache'', Str ''no-store'')])) (\<lambda>res. json res)"

definition NewsPage :: "network \<Rightarrow> jsx js" where
  "NewsPage net =
     andThen (getNews net) (\<lambda>news.
     andThen (js_slice news 0 5) (\<lambda>firsts.
     andThen (js_map firsts (\<lambda>n.
        andThen (get_field n ''id'') (\<lambda>k.
        andThen (get_field n ''body'') (\<lambda>b.
        ret (Element ''p'' (Some k) [Expr b]))))) (\<lambda>items.
     ret (Element ''div'' None [Element ''h1'' None [Text ''SSR News''], Elems items]))))"

section \<open>Client components\<close>

subsection \<open>Hooks\<close>

text \<open>
  What React keeps for a component with one \<open>useState\<close> and one \<open>useEffect\<close>: the
  state (nothing before the first render) and the dependency array of the last committed
  render (nothing before the mount).
\<close>

record hooks =
  state_slot :: "jsval option"
  deps_slot :: "jsval list option"

text \<open>\<open>useState(initial)\<close>: the initial value counts on the first render only.\<close>

definition useState :: "hooks \<Rightarrow> jsval \<Rightarrow> jsval" where
  "useState h initial = (case state_slot h of None \<Rightarrow> initial | Some v \<Rightarrow> v)"

text \<open>
  \<open>useEffect(f, deps)\<close>: \<open>f\<close> runs after the commit of the mounting render, and after
  a later one only when the dependency array differs from the previous one.
\<close>

definition effect_due :: "hooks \<Rightarrow> jsval list \<Rightarrow> bool" where
  "effect_due h deps = (case deps_slot h of None \<Rightarrow> True | Some old \<Rightarrow> old \<noteq> deps)"

text \<open>
  What one call of a component function does: the state it got from \<open>useState\<close>, the
  effect it registered (the request its callback issues, the handler chained on the
  response with \<open>.then\<close>, whose value goes to the state setter, and the dependency
  array) and what it returned.
\<close>

record rendering =
  state :: jsval
  effect_request :: "string \<times> jsval"
  effect_then :: "response \<Rightarrow> jsval js"
  effect_deps :: "jsval list"
  returned :: "jsx js"

subsection \<open>pages/profile.js\<close>

definition Profile :: "hooks \<Rightarrow> rendering" where
  "Profile h =
     (let user = useState h Null in
      \<lparr> state = user,
        effect_request = (''https://api.example.com/users/1'', Undefined),
        effect_then = (\<lambda>res. json res),
        effect_deps = [],
        returned =
          (if \<not> truthy user then ret (Element ''p'' None [Text ''Loading...''])
           else
             andThen (get_field user ''name'') (\<lambda>name.
             andThen (get_field user ''email'') (\<lambda>email.
             ret (Element ''div'' None
                    [Element ''h1'' None [Expr name], Element ''p'' None [Expr email]])))) \<rparr>)"

subsection \<open>app/profile/page\<close>

definition ProfilePage :: "hooks \<Rightarrow> rendering" where
  "ProfilePage h =
     (let user = useState h Null in
      \<lparr> state = user,
        effect_request = (''https://api.example.com/users/1'', Undefined),
        effect_then = (\<lambda>res. json res),
        effect_deps = [],
        returned =
          (if \<not> truthy user then ret (Element ''p'' None [Text ''Loading...''])
           else
             andThen (get_field user ''name'') (\<lambda>name.
             andThen (get_field user ''email'') (\<lambda>email.
             ret (Element ''div'' None
                    [Element ''h1'' None [Expr name], Element ''p'' None [Expr email]])))) \<rparr>)"

subsection \<open>A mounted component over time\<close>

text \<open>
  A component instance: its hooks, what its last render returned, the events it has
  performed, the handlers of the requests still in flight (oldest first) and the promise
  rejections that no handler received.
\<close>

record fiber =
  hooks_of :: hooks
  shown :: "(js_error + jsx) option"
  events :: "event list"
  pending :: "(response \<Rightarrow> jsval js) list"
  unhandled :: "js_error list"

definition unmounted :: fiber where
  "unmounted =
     \<lparr> hooks_of = \<lparr> state_slot = None, deps_slot = None \<rparr>,
       shown = None, events = [], pending = [], unhandled = [] \<rparr>"

text \<open>
  What happens to an instance: React renders it (the first time: mounts it), or the
  oldest request in flight settles.
\<close>

datatype action = Render | Settle fetch_result

text \<open>
  A render calls the component function. If that throws, nothing is committed. Otherwise
  the hooks are stored and the effect runs when it is due: its callback issues the
  request and chains the handler. A settled request runs its handler: the value goes to
  the state setter, a rejection of the fetch or of the handler goes nowhere.
\<close>

fun step :: "(hooks \<Rightarrow> rendering) \<Rightarrow> fiber \<Rightarrow> action \<Rightarrow> fiber" where
  "step C s Render =
     (let r = C (hooks_of s) in
      case returned r of
        (t, Inl e) \<Rightarrow> s\<lparr> shown := Some (Inl e), events := events s @ t \<rparr>
      | (t, Inr m) \<Rightarrow>
          (let s' = s\<lparr> hooks_of := \<lparr> state_slot = Some (state r),
                                      deps_slot = Some (effect_deps r) \<rparr>,
                       shown := Some (Inr m),
                       events := events s @ t \<rparr>
           in if effect_due (hooks_of s) (effect_deps r)
              then s'\<lparr> events := events s' @
                                   [Fetch (fst (effect_request r)) (snd (effect_request r))],
                       pending := pending s' @ [effect_then r] \<rparr>
              else s'))"
| "step C s (Settle fr) =
     (case pending s of
        [] \<Rightarrow> s
      | h # hs \<Rightarrow>
          (case fr of
             Rejected e \<Rightarrow> s\<lparr> pending := hs, unhandled := unhandled s @ [e] \<rparr>
           | Resolved res \<Rightarrow>
               (case h res of
                  (t, Inl e) \<Rightarrow> s\<lparr> pending := hs, unhandled := unhandled s @ [e] \<rparr>
                | (t, Inr v) \<Rightarrow>
                    s\<lparr> pending := hs,
                       hooks_of := (hooks_of s)\<lparr> state_slot := Some v \<rparr> \<rparr>)))"

definition mount :: "(hooks \<Rightarrow> rendering) \<Rightarrow> fiber" where
  "mount C = step C unmounted Render"

definition run :: "(hooks \<Rightarrow> rendering) \<Rightarrow> fiber \<Rightarrow> action list \<Rightarrow> fiber" where
  "run C s as = foldl (step C) s as"

section \<open>Notions used to state the properties\<close>

text \<open>The two property reads one list item makes, and the element it becomes.\<close>

definition item_reads :: "string \<Rightarrow> string \<Rightarrow> jsval \<Rightarrow> event list" where
  "item_reads a b x = [Read x a, Read x b]"

definition item_view :: "string \<Rightarrow> string \<Rightarrow> string \<Rightarrow> jsval \<Rightarrow> jsx" where
  "item_view tag a b x = Element tag (Some (field_value x a)) [Expr (field_value x b)]"

text \<open>A heading followed by one item per element of \<open>xs\<close>, in the order of \<open>xs\<close>.\<close>

definition list_view :: "string \<Rightarrow> string \<Rightarrow> string \<Rightarrow> string \<Rightarrow> jsval list \<Rightarrow> jsx" where
  "list_view heading tag a b xs =
     Element ''div'' None [Element ''h1'' None [Text heading], Elems (map (item_view tag a b) xs)]"


definition loading :: jsx where
  "loading = Element ''p'' None [Text ''Loading...'']"

definition profile_view :: "jsval \<Rightarrow> jsx" where
  "profile_view user =
     Element ''div'' None
       [Element ''h1'' None [Expr (field_value user ''name'')],
        Element ''p'' None [Expr (field_value user ''email'')]]"

text \<open>
  What a request settles to when nothing but \<open>res.json()\<close> stands between the fetch and
  its consumer: the rejection reason, the parse error, or the parsed body whatever the
  status.
\<close>

fun settled :: "fetch_result \<Rightarrow> js_error + jsval" where
  "settled (Rejected e) = Inl e"
| "settled (Resolved (Response st Malformed)) = Inl SyntaxError"
| "settled (Resolved (Response st (Json v))) = Inr v"


text \<open>
  What rendering a heading and a list over a value comes to: the reads of the elements
  before the first \<open>null\<close>, and the list when there is none; a value that is not an
  array has no \<open>map\<close>.
\<close>

definition list_rendering :: "string \<Rightarrow> string \<Rightarrow> string \<Rightarrow> string \<Rightarrow> jsval \<Rightarrow> jsx js" where
  "list_rendering heading tag a b v =
     (case v of
        Arr xs \<Rightarrow>
          (concat (map (item_reads a b) (takeWhile (\<lambda>x. \<not> nullish x) xs)),
           if \<forall>x\<in>set xs. \<not> nullish x then Inr (list_view heading tag a b xs)
           else Inl TypeError)
      | _ \<Rightarrow> ([], Inl TypeError))"

definition first_five :: "jsval \<Rightarrow> jsval" where
  "first_five v = (case v of Arr xs \<Rightarrow> Arr (take 5 xs) | _ \<Rightarrow> v)"

text \<open>One request, then the continuation on the parsed body if there is one.\<close>

definition fetched_then :: "network \<Rightarrow> string \<Rightarrow> jsval \<Rightarrow> (jsval \<Rightarrow> 'a js) \<Rightarrow> 'a js" where
  "fetched_then net u i k =
     (case settled (net u i) of
        Inl e \<Rightarrow> ([Fetch u i], Inl e)
      | Inr v \<Rightarrow> (Fetch u i # fst (k v), snd (k v)))"



text \<open>A network that answers every request with the given status and JSON body.\<close>

definition serve :: "nat \<Rightarrow> jsval \<Rightarrow> network" where
  "serve st v = (\<lambda>u init. Resolved (Response st (Json v)))"

text \<open>The hooks of a mounted component whose state is \<open>u\<close>.\<close>

definition holding :: "jsval \<Rightarrow> hooks" where
  "holding u = \<lparr> state_slot = Some u, deps_slot = Some [] \<rparr>"

text \<open>The request the two profile components issue.\<close>

definition users_request :: event where
  "users_request = Fetch ''https://api.example.com/users/1'' Undefined"

text \<open>An action that hands the state setter a value: a response whose body parses.\<close>

fun delivers :: "action \<Rightarrow> bool" where
  "delivers (Settle (Resolved (Response st (Json v)))) = True"
| "delivers a = False"

text \<open>Invariants of a mounted profile component.\<close>

definition fetched_once :: "fiber \<Rightarrow> bool" where
  "fetched_once s \<longleftrightarrow>
     deps_slot (hooks_of s) = Some [] \<and> fetches (events s) = [users_request]"

definition still_loading :: "fiber \<Rightarrow> bool" where
  "still_loading s \<longleftrightarrow>
     state_slot (hooks_of s) = Some Null \<and> shown s = Some (Inr loading) \<and>
     (\<forall>h\<in>set (pending s). h = json)"

text \<open>Sample data: an item with the fields the snippets read, and lists of such items.\<close>

definition sample :: "nat \<Rightarrow> jsval" where
  "sample n = Obj [(''id'', Num (of_nat n)), (''title'', Str ''t''), (''body'', Str ''b'')]"

definition five_blogs :: "jsval list" where
  "five_blogs = [sample 1, sample 2, sample 3, sample 4, sample 5]"




text \<open>A user object as the endpoint would answer it.\<close>

definition ann :: jsval where
  "ann = Obj [(''name'', Str ''Ann''), (''email'', Str ''ann@example.com'')]"



section \<open>Basic facts\<close>

lemma andThen_ret: "andThen (ret x) f = f x"
  by (simp add: andThen_def ret_def split: prod.splits)

lemma andThen_throw: "andThen (throw e) f = throw e"
  by (simp add: andThen_def throw_def)

lemma andThen_Inr: "andThen (t, Inr x) f = (t @ fst (f x), snd (f x))"
  by (simp add: andThen_def split: prod.splits)

lemma andThen_Inl: "andThen (t, Inl e) f = (t, Inl e)"
  by (simp add: andThen_def)

lemma andThen_result: "andThen m (\<lambda>x. ret (g x)) = (fst m, map_sum id g (snd m))"
  by (cases m) (auto simp: andThen_def ret_def split: sum.splits)

lemma item_ok:
  "\<not> nullish x \<Longrightarrow>
   andThen (get_field x a) (\<lambda>k. andThen (get_field x b) (\<lambda>t. ret (Element tag (Some k) [Expr t])))
   = (item_reads a b x, Inr (item_view tag a b x))"
  by (simp add: get_field_def andThen_Inr ret_def item_reads_def item_view_def)

lemma item_fail:
  "nullish x \<Longrightarrow>
   andThen (get_field x a) (\<lambda>k. andThen (get_field x b) (\<lambda>t. ret (Element tag (Some k) [Expr t])))
   = ([], Inl TypeError)"
  by (simp add: get_field_def andThen_throw) (simp add: throw_def)

text \<open>
  The loop of \<open>map\<close> for a callback that succeeds exactly on the elements satisfying
  \<open>ok\<close>: the events are those of the elements before the first failure.
\<close>

lemma map_js_pointwise:
  assumes ok: "\<And>x. ok x \<Longrightarrow> f x = (r x, Inr (g x))"
    and bad: "\<And>x. \<not> ok x \<Longrightarrow> f x = ([], Inl e)"
  shows "map_js f xs =
           (concat (map r (takeWhile ok xs)),
            if \<forall>x\<in>set xs. ok x then Inr (map g xs) else Inl e)"
proof (induction xs)
  case Nil
  show ?case by (simp add: ret_def)
next
  case (Cons x xs)
  show ?case
  proof (cases "ok x")
    case True
    then show ?thesis
      by (simp add: ok andThen_Inr Cons.IH andThen_result)
  next
    case False
    then show ?thesis by (simp add: bad andThen_Inl)
  qed
qed

lemma map_js_items:
  "map_js (\<lambda>x. andThen (get_field x a) (\<lambda>k. andThen (get_field x b) (\<lambda>t.
                ret (Element tag (Some k) [Expr t])))) xs
   = (concat (map (item_reads a b) (takeWhile (\<lambda>x. \<not> nullish x) xs)),
      if \<forall>x\<in>set xs. \<not> nullish x then Inr (map (item_view tag a b) xs) else Inl TypeError)"
  by (rule map_js_pointwise) (simp_all add: item_ok item_fail)

lemma andThen_pair: "andThen (t, r) (\<lambda>x. ret (g x)) = (t, map_sum id g r)"
  by (simp add: andThen_result)

subsection \<open>What each function comes to\<close>

lemma fetch_json: "andThen (fetch net u i) (\<lambda>res. json res) = ([Fetch u i], settled (net u i))"
proof (cases "net u i")
  case (Rejected e)
  then show ?thesis by (simp add: fetch_def andThen_Inl)
next
  case (Resolved r)
  obtain st b where r: "r = Response st b" by (cases r)
  show ?thesis
    by (cases b) (simp_all add: Resolved r fetch_def andThen_Inr throw_def ret_def)
qed

lemma fetch_json_then:
  "andThen (andThen (fetch net u i) (\<lambda>res. json res)) k = fetched_then net u i k"
  by (cases "settled (net u i)")
     (simp_all add: fetch_json fetched_then_def andThen_Inl andThen_Inr)

lemma fetch_json_ret:
  "andThen (fetch net u i) (\<lambda>res. andThen (json res) (\<lambda>v. ret (g v)))
   = ([Fetch u i], map_sum id g (settled (net u i)))"
proof (cases "net u i")
  case (Rejected e)
  then show ?thesis by (simp add: fetch_def andThen_Inl)
next
  case (Resolved r)
  obtain st b where r: "r = Response st b" by (cases r)
  show ?thesis
    by (cases b)
       (simp_all add: Resolved r fetch_def andThen_Inr andThen_Inl throw_def ret_def)
qed

lemma items_eq:
  "andThen (js_map v (\<lambda>x. andThen (get_field x a) (\<lambda>k. andThen (get_field x b) (\<lambda>t.
                ret (Element tag (Some k) [Expr t])))))
     (\<lambda>items. ret (Element ''div'' None [Element ''h1'' None [Text heading], Elems items]))
   = list_rendering heading tag a b v"
  by (cases v)
     (simp_all add: list_rendering_def map_js_items andThen_pair andThen_throw throw_def
        list_view_def)

lemma sliced_items_eq:
  "andThen (js_slice v 0 5) (\<lambda>firsts.
   andThen (js_map firsts (\<lambda>x. andThen (get_field x a) (\<lambda>k. andThen (get_field x b) (\<lambda>t.
                ret (Element tag (Some k) [Expr t])))))
     (\<lambda>items. ret (Element ''div'' None [Element ''h1'' None [Text heading], Elems items])))
   = list_rendering heading tag a b (first_five v)"
  by (cases v) (simp_all add: items_eq andThen_ret andThen_throw first_five_def,
                simp_all add: list_rendering_def throw_def)

lemma getStaticProps_blogs_eq:
  "getStaticProps_blogs net =
     ([Fetch ''https://api.example.com/blogs'' Undefined],
      map_sum id (\<lambda>blogs. Obj [(''props'', Obj [(''blogs'', blogs)])])
        (settled (net ''https://api.example.com/blogs'' Undefined)))"
  by (simp add: getStaticProps_blogs_def fetch_json_ret)

lemma getServerSideProps_eq:
  "getServerSideProps net =
     ([Fetch ''https://api.example.com/news'' Undefined],
      map_sum id (\<lambda>news. Obj [(''props'', Obj [(''news'', news)])])
        (settled (net ''https://api.example.com/news'' Undefined)))"
  by (simp add: getServerSideProps_def fetch_json_ret)

lemma getStaticProps_posts_eq:
  "getStaticProps_posts net =
     ([Fetch ''https://api.example.com/posts'' Undefined],
      map_sum id (\<lambda>posts. Obj [(''props'', Obj [(''posts'', posts)]), (''revalidate'', Num 10)])
        (settled (net ''https://api.example.com/posts'' Undefined)))"
  by (simp add: getStaticProps_posts_def fetch_json_ret)

lemma getBlogs_eq:
  "getBlogs net =
     ([Fetch ''https://api.example.com/blogs'' Undefined],
      settled (net ''https://api.example.com/blogs'' Undefined))"
  by (simp add: getBlogs_def fetch_json)

lemma getPosts_eq:
  "getPosts net =
     ([Fetch ''https://api.example.com/posts'' (Obj [(''next'', Obj [(''revalidate'', Num 10)])])],
      settled (net ''https://api.example.com/posts''
                 (Obj [(''next'', Obj [(''revalidate'', Num 10)])])))"
  by (simp add: getPosts_def fetch_json)

lemma getNews_eq:
  "getNews net =
     ([Fetch ''https://api.example.com/news'' (Obj [(''cache'', Str ''no-store'')])],
      settled (net ''https://api.example.com/news'' (Obj [(''cache'', Str ''no-store'')])))"
  by (simp add: getNews_def fetch_json)

lemma Blogs_eq: "Blogs v = list_rendering ''Blogs'' ''div'' ''id'' ''title'' v"
  by (simp add: Blogs_def items_eq)

lemma News_eq: "News v = list_rendering ''News'' ''div'' ''id'' ''title'' v"
  by (simp add: News_def items_eq)

lemma BlogsPage_eq:
  "BlogsPage net =
     fetched_then net ''https://api.example.com/blogs'' Undefined
       (\<lambda>v. list_rendering ''SSG Blogs'' ''p'' ''id'' ''title'' (first_five v))"
  by (simp add: BlogsPage_def getBlogs_def fetch_json_then sliced_items_eq)

lemma NewsPage_eq:
  "NewsPage net =
     fetched_then net ''https://api.example.com/news'' (Obj [(''cache'', Str ''no-store'')])
       (\<lambda>v. list_rendering ''SSR News'' ''p'' ''id'' ''body'' (first_five v))"
  by (simp add: NewsPage_def getNews_def fetch_json_then sliced_items_eq)

lemma PostsPage_eq:
  "PostsPage net =
     fetched_then net ''https://api.example.com/posts''
       (Obj [(''next'', Obj [(''revalidate'', Num 10)])])
       (\<lambda>v. list_rendering ''ISR Posts'' ''p'' ''id'' ''title'' v)"
  by (simp add: PostsPage_def getPosts_def fetch_json_then items_eq)

subsection \<open>The profile components\<close>

lemma truthy_not_nullish: "truthy u \<Longrightarrow> \<not> nullish u"
  by (cases u) simp_all

lemma ProfilePage_Profile: "ProfilePage = Profile"
  by (rule ext) (simp add: ProfilePage_def Profile_def)

lemma Profile_returned:
  "returned (Profile h) =
     (if truthy (useState h Null)
      then ([Read (useState h Null) ''name'', Read (useState h Null) ''email''],
            Inr (profile_view (useState h Null)))
      else ([], Inr loading))"
  by (simp add: Profile_def Let_def get_field_def truthy_not_nullish andThen_Inr ret_def
        profile_view_def loading_def)

lemma Profile_fields:
  "state (Profile h) = useState h Null"
  "effect_request (Profile h) = (''https://api.example.com/users/1'', Undefined)"
  "effect_deps (Profile h) = []"
  "effect_then (Profile h) = json"
  by (simp_all add: Profile_def Let_def)

lemma mount_Profile:
  "mount Profile =
     \<lparr> hooks_of = \<lparr> state_slot = Some Null, deps_slot = Some [] \<rparr>,
       shown = Some (Inr loading), events = [users_request], pending = [json],
       unhandled = [] \<rparr>"
  by (simp add: mount_def unmounted_def useState_def effect_due_def
        Profile_returned Profile_fields Let_def users_request_def)

lemma fetched_once_step: "fetched_once s \<Longrightarrow> fetched_once (step Profile s a)"
proof (cases a)
  case Render
  assume "fetched_once s"
  then show ?thesis
    by (simp add: Render fetched_once_def effect_due_def Let_def
          fetches_def Profile_returned Profile_fields)
next
  case (Settle fr)
  assume "fetched_once s"
  then show ?thesis
    by (auto simp: Settle fetched_once_def
          split: list.splits fetch_result.splits prod.splits sum.splits)
qed

lemma fetched_once_run: "fetched_once s \<Longrightarrow> fetched_once (run Profile s as)"
  unfolding run_def
  by (induction as arbitrary: s) (simp_all add: fetched_once_step)

lemma fetched_once_mount: "fetched_once (mount Profile)"
  by (simp add: mount_Profile fetched_once_def fetches_def users_request_def)

lemma still_loading_step:
  assumes "still_loading s" "\<not> delivers a"
  shows "still_loading (step Profile s a)"
proof (cases a)
  case Render
  with assms show ?thesis
    by (simp add: still_loading_def Let_def useState_def Profile_returned Profile_fields)
next
  case (Settle fr)
  show ?thesis
  proof (cases "pending s")
    case Nil
    with assms Settle show ?thesis by simp
  next
    case (Cons h hs)
    with assms have h: "h = json" by (simp add: still_loading_def)
    show ?thesis
    proof (cases fr)
      case (Rejected e)
      with assms Settle Cons show ?thesis by (simp add: still_loading_def)
    next
      case (Resolved r)
      obtain st b where r: "r = Response st b" by (cases r)
      with assms Settle Resolved have b: "b = Malformed" by (cases b) simp_all
      with assms Settle Cons Resolved r h show ?thesis
        by (simp add: still_loading_def throw_def)
    qed
  qed
qed

lemma still_loading_run:
  "still_loading s \<Longrightarrow> \<forall>a\<in>set as. \<not> delivers a \<Longrightarrow> still_loading (run Profile s as)"
  unfolding run_def
  by (induction as arbitrary: s) (simp_all add: still_loading_step)

lemma still_loading_mount: "still_loading (mount Profile)"
  by (simp add: mount_Profile still_loading_def)

lemma fetches_item_reads: "fetches (concat (map (item_reads a b) ys)) = []"
  by (induction ys) (simp_all add: fetches_def item_reads_def)

lemma fetches_list_rendering: "fetches (fst (list_rendering heading tag a b v)) = []"
  by (cases v) (simp_all add: list_rendering_def fetches_item_reads, simp_all add: fetches_def)

lemma fetches_fetched_then:
  "(\<And>v. fetches (fst (k v)) = []) \<Longrightarrow> fetches (fst (fetched_then net u i k)) = [Fetch u i]"
  by (cases "settled (net u i)") (simp_all add: fetched_then_def fetches_def)




















lemma loading_not_profile_view: "profile_view u \<noteq> loading"
  by (simp add: profile_view_def loading_def)

lemma Profile_outcome:
  "outcome (returned (Profile h)) =
     (if truthy (state (Profile h)) then Inr (profile_view (state (Profile h))) else Inr loading)"
  by (simp add: outcome_def Profile_returned Profile_fields)
















section \<open>The properties\<close>

text \<open>
  C4. A client component fetches once per mount and never again. The dependency array
  that \<open>Profile\<close> and \<open>ProfilePage\<close> pass to \<open>useEffect\<close> is empty whatever the state,
  so the effect is never due after the mount: whatever happens to the mounted component
  afterwards, in any order and number (re-renders, among them the one that follows
  \<open>setUser\<close>, and requests settling either way), the requests it has issued are the one
  of the mount.
\<close>

theorem fetch_once_per_mount:
  "effect_deps (Profile h) = [] \<and> effect_deps (ProfilePage h) = [] \<and>
   fetches (events (mount Profile)) = [Fetch ''https://api.example.com/users/1'' Undefined] \<and>
   fetches (events (mount ProfilePage)) = [Fetch ''https://api.example.com/users/1'' Undefined] \<and>
   fetches (events (run Profile (mount Profile) as)) =
     [Fetch ''https://api.example.com/users/1'' Undefined] \<and>
   fetches (events (run ProfilePage (mount ProfilePage) as)) =
     [Fetch ''https://api.example.com/users/1'' Undefined]"
proof -
  have "fetched_once (run Profile (mount Profile) as)"
    by (rule fetched_once_run [OF fetched_once_mount])
  then have run: "fetches (events (run Profile (mount Profile) as)) = [users_request]"
    by (simp add: fetched_once_def)
  have mnt: "fetches (events (mount Profile)) = [users_request]"
    using fetched_once_mount by (simp add: fetched_once_def)
  show ?thesis
    using run mnt by (simp add: ProfilePage_Profile Profile_fields users_request_def)
qed

text \<open>
  C2. Every run of a snippet issues exactly one request, to a URL fixed in the code.
  Whatever the network does, each data function (\<open>getStaticProps\<close> of the blogs and
  of the posts page, \<open>getServerSideProps\<close>, \<open>getBlogs\<close>, \<open>getNews\<close>, \<open>getPosts\<close>)
  issues its one request; a Pages Router page, its data function followed by its component
  on any props, and an App Router page issue that one request and no other; a client
  component has issued exactly one request once mounted, and still exactly that one after
  anything that happens to it later.
\<close>

theorem one_request_per_run:
  "fetches (trace (getStaticProps_blogs net)) = [Fetch ''https://api.example.com/blogs'' Undefined] \<and>
   fetches (trace (getServerSideProps net)) = [Fetch ''https://api.example.com/news'' Undefined] \<and>
   fetches (trace (getStaticProps_posts net)) = [Fetch ''https://api.example.com/posts'' Undefined] \<and>
   fetches (trace (getBlogs net)) = [Fetch ''https://api.example.com/blogs'' Undefined] \<and>
   fetches (trace (getNews net)) =
     [Fetch ''https://api.example.com/news'' (Obj [(''cache'', Str ''no-store'')])] \<and>
   fetches (trace (getPosts net)) =
     [Fetch ''https://api.example.com/posts'' (Obj [(''next'', Obj [(''revalidate'', Num 10)])])] \<and>
   fetches (trace (getStaticProps_blogs net) @ trace (Blogs v)) =
     [Fetch ''https://api.example.com/blogs'' Undefined] \<and>
   fetches (trace (getServerSideProps net) @ trace (News v)) =
     [Fetch ''https://api.example.com/news'' Undefined] \<and>
   fetches (trace (BlogsPage net)) = [Fetch ''https://api.example.com/blogs'' Undefined] \<and>
   fetches (trace (NewsPage net)) =
     [Fetch ''https://api.example.com/news'' (Obj [(''cache'', Str ''no-store'')])] \<and>
   fetches (trace (PostsPage net)) =
     [Fetch ''https://api.example.com/posts'' (Obj [(''next'', Obj [(''revalidate'', Num 10)])])] \<and>
   fetches (events (mount Profile)) = [Fetch ''https://api.example.com/users/1'' Undefined] \<and>
   fetches (events (mount ProfilePage)) = [Fetch ''https://api.example.com/users/1'' Undefined] \<and>
   fetches (events (run Profile (mount Profile) as)) =
     [Fetch ''https://api.example.com/users/1'' Undefined] \<and>
   fetches (events (run ProfilePage (mount ProfilePage) as)) =
     [Fetch ''https://api.example.com/users/1'' Undefined]"
proof -
  have data:
    "fetches (trace (getStaticProps_blogs net)) = [Fetch ''https://api.example.com/blogs'' Undefined]"
    "fetches (trace (getServerSideProps net)) = [Fetch ''https://api.example.com/news'' Undefined]"
    "fetches (trace (getStaticProps_posts net)) = [Fetch ''https://api.example.com/posts'' Undefined]"
    "fetches (trace (getBlogs net)) = [Fetch ''https://api.example.com/blogs'' Undefined]"
    "fetches (trace (getNews net)) =
       [Fetch ''https://api.example.com/news'' (Obj [(''cache'', Str ''no-store'')])]"
    "fetches (trace (getPosts net)) =
       [Fetch ''https://api.example.com/posts'' (Obj [(''next'', Obj [(''revalidate'', Num 10)])])]"
    by (simp_all add: trace_def fetches_def getStaticProps_blogs_eq getServerSideProps_eq
          getStaticProps_posts_eq getBlogs_eq getNews_eq getPosts_eq)
  have comps: "fetches (trace (Blogs v)) = []" "fetches (trace (News v)) = []"
    by (simp_all add: trace_def Blogs_eq News_eq fetches_list_rendering)
  have pages:
    "fetches (trace (BlogsPage net)) = [Fetch ''https://api.example.com/blogs'' Undefined]"
    "fetches (trace (NewsPage net)) =
       [Fetch ''https://api.example.com/news'' (Obj [(''cache'', Str ''no-store'')])]"
    "fetches (trace (PostsPage net)) =
       [Fetch ''https://api.example.com/posts'' (Obj [(''next'', Obj [(''revalidate'', Num 10)])])]"
    by (simp_all add: trace_def BlogsPage_eq NewsPage_eq PostsPage_eq fetches_fetched_then
          fetches_list_rendering)
  have "fetched_once (run Profile (mount Profile) as)"
    by (rule fetched_once_run [OF fetched_once_mount])
  then have client: "fetches (events (run Profile (mount Profile) as)) = [users_request]"
    "fetches (events (mount Profile)) = [users_request]"
    using fetched_once_mount by (simp_all add: fetched_once_def)
  have app: "\<And>s t. fetches (s @ t) = fetches s @ fetches t"
    by (simp add: fetches_def)
  show ?thesis
    using data comps pages client
    by (simp add: app ProfilePage_Profile users_request_def)
qed

text \<open>
  C6. The ISR snippets ask for revalidation every 10 seconds, the SSG snippets for none.
  The object that \<open>getStaticProps\<close> of the posts page returns has \<open>revalidate\<close> equal
  to 10 beside \<open>props\<close>; \<open>getPosts\<close> passes \<open>next: { revalidate: 10 }\<close> to its fetch;
  the object that \<open>getStaticProps\<close> of the blogs page returns is \<open>props\<close> alone, with
  no \<open>revalidate\<close>, and \<open>getBlogs\<close> passes no options to its fetch.
\<close>

theorem isr_revalidates_every_ten:
  "(net ''https://api.example.com/posts'' Undefined = Resolved (Response st (Json posts)) \<longrightarrow>
      outcome (getStaticProps_posts net) =
        Inr (Obj [(''props'', Obj [(''posts'', posts)]), (''revalidate'', Num 10)])) \<and>
   (outcome (getStaticProps_posts net) = Inr r \<longrightarrow>
      field_value r ''revalidate'' = Num 10 \<and>
      (\<exists>posts. field_value r ''props'' = Obj [(''posts'', posts)])) \<and>
   (\<exists>init. trace (getPosts net) = [Fetch ''https://api.example.com/posts'' init] \<and>
           init = Obj [(''next'', Obj [(''revalidate'', Num 10)])] \<and>
           field_value (field_value init ''next'') ''revalidate'' = Num 10) \<and>
   (outcome (getStaticProps_blogs net) = Inr r' \<longrightarrow>
      field_value r' ''revalidate'' = Undefined \<and>
      (\<exists>blogs. r' = Obj [(''props'', Obj [(''blogs'', blogs)])])) \<and>
   trace (getBlogs net) = [Fetch ''https://api.example.com/blogs'' Undefined]"
proof -
  have a: "net ''https://api.example.com/posts'' Undefined = Resolved (Response st (Json posts)) \<longrightarrow>
      outcome (getStaticProps_posts net) =
        Inr (Obj [(''props'', Obj [(''posts'', posts)]), (''revalidate'', Num 10)])"
    by (simp add: outcome_def getStaticProps_posts_eq)
  have b: "outcome (getStaticProps_posts net) = Inr r \<longrightarrow>
      field_value r ''revalidate'' = Num 10 \<and>
      (\<exists>posts. field_value r ''props'' = Obj [(''posts'', posts)])"
    by (cases "settled (net ''https://api.example.com/posts'' Undefined)")
       (auto simp: outcome_def getStaticProps_posts_eq own_property_def)
  have c: "\<exists>init. trace (getPosts net) = [Fetch ''https://api.example.com/posts'' init] \<and>
           init = Obj [(''next'', Obj [(''revalidate'', Num 10)])] \<and>
           field_value (field_value init ''next'') ''revalidate'' = Num 10"
    by (simp add: trace_def getPosts_eq own_property_def)
  have d: "outcome (getStaticProps_blogs net) = Inr r' \<longrightarrow>
      field_value r' ''revalidate'' = Undefined \<and>
      (\<exists>blogs. r' = Obj [(''props'', Obj [(''blogs'', blogs)])])"
    by (cases "settled (net ''https://api.example.com/blogs'' Undefined)")
       (auto simp: outcome_def getStaticProps_blogs_eq own_property_def)
  have e: "trace (getBlogs net) = [Fetch ''https://api.example.com/blogs'' Undefined]"
    by (simp add: trace_def getBlogs_eq)
  from a b c d e show ?thesis by blast
qed

theorem isr_revalidates_every_ten_witness:
  "outcome (getStaticProps_posts (serve 200 (Arr five_blogs))) =
     Inr (Obj [(''props'', Obj [(''posts'', Arr five_blogs)]), (''revalidate'', Num 10)]) \<and>
   field_value (Obj [(''props'', Obj [(''posts'', Arr five_blogs)]), (''revalidate'', Num 10)])
     ''revalidate'' = Num 10 \<and>
   outcome (getStaticProps_blogs (serve 200 (Arr five_blogs))) =
     Inr (Obj [(''props'', Obj [(''blogs'', Arr five_blogs)])]) \<and>
   field_value (Obj [(''props'', Obj [(''blogs'', Arr five_blogs)])]) ''revalidate'' = Undefined"
proof -
  have p: "outcome (getStaticProps_posts (serve 200 (Arr five_blogs))) =
     Inr (Obj [(''props'', Obj [(''posts'', Arr five_blogs)]), (''revalidate'', Num 10)])"
    using isr_revalidates_every_ten [of "serve 200 (Arr five_blogs)" 200 "Arr five_blogs"]
    by (simp add: serve_def)
  have b: "outcome (getStaticProps_blogs (serve 200 (Arr five_blogs))) =
     Inr (Obj [(''props'', Obj [(''blogs'', Arr five_blogs)])])"
    by (simp add: outcome_def getStaticProps_blogs_eq serve_def)
  show ?thesis
    using p b
      isr_revalidates_every_ten [of "serve 200 (Arr five_blogs)" 200 "Arr five_blogs"
        "Obj [(''props'', Obj [(''posts'', Arr five_blogs)]), (''revalidate'', Num 10)]"
        "Obj [(''props'', Obj [(''blogs'', Arr five_blogs)])]"]
    by simp
qed










text \<open>
  C9 as written, with the main markup rendered exactly when \<open>user\<close> is not \<open>null\<close>,
  fails on a falsy value: when the endpoint answers \<open>false\<close>, the state becomes
  \<open>false\<close>, which is not \<open>null\<close>, and the next render is still the loading
  paragraph.
\<close>

theorem falsy_user_keeps_loading:
  "state_slot (hooks_of (run Profile (mount Profile)
       [Settle (Resolved (Response 200 (Json (Bool False)))), Render])) = Some (Bool False) \<and>
   Bool False \<noteq> Null \<and>
   shown (run Profile (mount Profile)
       [Settle (Resolved (Response 200 (Json (Bool False)))), Render]) = Some (Inr loading) \<and>
   loading \<noteq> profile_view (Bool False)"
  by (simp add: run_def mount_Profile ret_def Profile_returned Profile_fields useState_def
        effect_due_def Let_def loading_def profile_view_def)

text \<open>
  C9, amended. On the mounting render, and on every later render as long as no request
  has delivered a value, \<open>Profile\<close> and \<open>ProfilePage\<close> return exactly the paragraph
  \<open>Loading...\<close>: the state starts as \<open>null\<close> and the check \<open>!user\<close> comes before
  the main markup. Whatever the state, the name-and-email markup is returned if and only
  if \<open>user\<close> is truthy, and the loading paragraph if and only if it is falsy
  (\<open>null\<close>, \<open>undefined\<close>, \<open>false\<close>, \<open>0\<close> or the empty string).
\<close>

theorem loading_until_truthy:
  "shown (mount Profile) = Some (Inr loading) \<and>
   shown (mount ProfilePage) = Some (Inr loading) \<and>
   state_slot (hooks_of (mount Profile)) = Some Null \<and>
   state_slot (hooks_of (mount ProfilePage)) = Some Null \<and>
   ((\<forall>a\<in>set as. \<not> delivers a) \<longrightarrow>
      shown (run Profile (mount Profile) as) = Some (Inr loading) \<and>
      shown (run ProfilePage (mount ProfilePage) as) = Some (Inr loading)) \<and>
   (outcome (returned (Profile h)) = Inr (profile_view (state (Profile h)))
      \<longleftrightarrow> truthy (state (Profile h))) \<and>
   (outcome (returned (Profile h)) = Inr loading \<longleftrightarrow> \<not> truthy (state (Profile h))) \<and>
   (outcome (returned (ProfilePage h)) = Inr (profile_view (state (ProfilePage h)))
      \<longleftrightarrow> truthy (state (ProfilePage h))) \<and>
   (outcome (returned (ProfilePage h)) = Inr loading \<longleftrightarrow> \<not> truthy (state (ProfilePage h)))"
proof -
  have m: "shown (mount Profile) = Some (Inr loading)"
    "state_slot (hooks_of (mount Profile)) = Some Null"
    by (simp_all add: mount_Profile)
  have r: "(\<forall>a\<in>set as. \<not> delivers a) \<longrightarrow>
      shown (run Profile (mount Profile) as) = Some (Inr loading)"
    using still_loading_run [OF still_loading_mount, of as]
    by (simp add: still_loading_def)
  have v: "outcome (returned (Profile h)) = Inr (profile_view (state (Profile h)))
      \<longleftrightarrow> truthy (state (Profile h))"
    "outcome (returned (Profile h)) = Inr loading \<longleftrightarrow> \<not> truthy (state (Profile h))"
    using loading_not_profile_view [of "state (Profile h)"]
    by (auto simp: Profile_outcome)
  from m r v show ?thesis
    by (simp only: ProfilePage_Profile) blast
qed

theorem loading_until_truthy_witness:
  "shown (run Profile (mount Profile) [Render, Settle (Rejected (FetchError 0)), Render]) =
     Some (Inr loading) \<and>
   shown (run ProfilePage (mount ProfilePage) [Render, Settle (Rejected (FetchError 0)), Render]) =
     Some (Inr loading) \<and>
   truthy (state (Profile (holding ann))) \<and>
   outcome (returned (Profile (holding ann))) = Inr (profile_view ann) \<and>
   \<not> truthy (state (Profile (holding (Num 0)))) \<and>
   outcome (returned (Profile (holding (Num 0)))) = Inr loading"
proof -
  have a: "\<forall>a\<in>set [Render, Settle (Rejected (FetchError 0)), Render]. \<not> delivers a"
    by simp
  have s: "state (Profile (holding ann)) = ann" "state (Profile (holding (Num 0))) = Num 0"
    by (simp_all add: Profile_fields useState_def holding_def)
  have t: "truthy ann" "\<not> truthy (Num 0)"
    by (simp_all add: ann_def)
  note R = loading_until_truthy [where as = "[Render, Settle (Rejected (FetchError 0)), Render]"]
  have r: "shown (run Profile (mount Profile) [Render, Settle (Rejected (FetchError 0)), Render]) =
     Some (Inr loading) \<and>
   shown (run ProfilePage (mount ProfilePage) [Render, Settle (Rejected (FetchError 0)), Render]) =
     Some (Inr loading)"
    using R a by blast
  have p: "outcome (returned (Profile (holding ann))) = Inr (profile_view ann)"
    using loading_until_truthy [where h = "holding ann"] s t by simp
  have q: "outcome (returned (Profile (holding (Num 0)))) = Inr loading"
    using loading_until_truthy [where h = "holding (Num 0)"] s t by simp
  from r p q s t show ?thesis by simp
qed









end
